theory Spec2Isabelle
  imports Complex_Main
begin

section \<open>Python values and errors\<close>

text \<open>
  The functions of \<^verbatim>\<open>FIBSEM_EPFL/scripts/data.py\<close> are embedded as HOL functions.
  Python integers are \<^typ>\<open>int\<close>, array extents are \<^typ>\<open>nat\<close>, arrays are nested
  lists (outermost axis first), and every exception the source can raise is a value
  of \<open>error\<close> returned on the left of a sum.  Pixel values are exact rationals: the
  rounding of \<^verbatim>\<open>float32\<close> storage is outside the model.
\<close>

datatype error =
  AssertionError | ValueError | IndexError | ZeroDivisionError
  | UnboundLocalError | AttributeError

definition ebind :: "error + 'a \<Rightarrow> ('a \<Rightarrow> error + 'b) \<Rightarrow> error + 'b" where
  "ebind m f = (case m of Inl e \<Rightarrow> Inl e | Inr x \<Rightarrow> f x)"

text \<open>A \<^verbatim>\<open>for\<close> loop whose body may raise: the first exception ends the loop.\<close>

fun foldM :: "('a \<Rightarrow> 's \<Rightarrow> error + 's) \<Rightarrow> 'a list \<Rightarrow> 's \<Rightarrow> error + 's" where
  "foldM f [] s = Inr s"
| "foldM f (x # xs) s = (case f x s of Inl e \<Rightarrow> Inl e | Inr s' \<Rightarrow> foldM f xs s')"

text \<open>\<^verbatim>\<open>int(x)\<close> of a quotient truncates towards zero.\<close>

definition py_trunc_div :: "int \<Rightarrow> int \<Rightarrow> int" where
  "py_trunc_div a b = sgn a * sgn b * (\<bar>a\<bar> div \<bar>b\<bar>)"

text \<open>
  \<^verbatim>\<open>range(start, stop, step)\<close>: \<^verbatim>\<open>ValueError\<close> for a zero step, otherwise the
  arithmetic progression that stays on the near side of \<open>stop\<close>.
\<close>

definition range_len :: "int \<Rightarrow> int \<Rightarrow> int \<Rightarrow> nat" where
  "range_len start stop step =
     (if 0 < step then (if start < stop then nat ((stop - start + step - 1) div step) else 0)
      else if step < 0 then (if stop < start then nat ((start - stop - step - 1) div (- step)) else 0)
      else 0)"

definition py_range :: "int \<Rightarrow> int \<Rightarrow> int \<Rightarrow> error + int list" where
  "py_range start stop step =
     (if step = 0 then Inl ValueError
      else Inr (map (\<lambda>k. start + int k * step) [0..<range_len start stop step]))"

text \<open>
  A slice \<^verbatim>\<open>xs[a:b]\<close>: a negative bound counts from the end, and both bounds are
  clipped to the extent of the axis.
\<close>

definition clip_index :: "nat \<Rightarrow> int \<Rightarrow> nat" where
  "clip_index n v = (if v < 0 then nat (max 0 (v + int n)) else nat (min v (int n)))"

definition py_slice :: "int \<Rightarrow> int \<Rightarrow> 'a list \<Rightarrow> 'a list" where
  "py_slice a b xs =
     (let lo = clip_index (length xs) a; hi = clip_index (length xs) b
      in take (hi - lo) (drop lo xs))"

text \<open>\<^verbatim>\<open>arr[a:b, c:d, :]\<close> on an array whose first two axes are rows and columns.\<close>

definition py_slice2 :: "int \<Rightarrow> int \<Rightarrow> int \<Rightarrow> int \<Rightarrow> 'a list list \<Rightarrow> 'a list list" where
  "py_slice2 a b c d img = map (py_slice c d) (py_slice a b img)"

section \<open>Foreground ratio\<close>

text \<open>
  \<^verbatim>\<open>__foreground_percentage(mask, class_tag)\<close>: two nested loops over
  \<^verbatim>\<open>mask.shape[0]\<close> and \<^verbatim>\<open>mask.shape[1]\<close> count the entries equal to the tag; the
  result is \<^verbatim>\<open>(c*100)/(mask.shape[0]*mask.shape[1])\<close>, which raises for an array
  without entries.
\<close>

definition nrows :: "'a list list \<Rightarrow> nat" where
  "nrows m = length m"

definition ncols :: "'a list list \<Rightarrow> nat" where
  "ncols m = (case m of [] \<Rightarrow> 0 | r # _ \<Rightarrow> length r)"

definition rectangular :: "'a list list \<Rightarrow> bool" where
  "rectangular m = (\<forall>r \<in> set m. length r = ncols m)"

definition foreground_count :: "'a list list \<Rightarrow> 'a \<Rightarrow> nat" where
  "foreground_count msk class_tag =
     fold (\<lambda>i c. fold (\<lambda>j c. if msk ! i ! j = class_tag then c + 1 else c) [0..<ncols msk] c)
          [0..<nrows msk] 0"

definition foreground_percentage :: "'a list list \<Rightarrow> 'a \<Rightarrow> error + rat" where
  "foreground_percentage msk class_tag =
     (let c = foreground_count msk class_tag
      in if nrows msk * ncols msk = 0 then Inl ZeroDivisionError
         else Inr (of_nat (c * 100) / of_nat (nrows msk * ncols msk)))"

section \<open>Factorisation of the number of crops\<close>

text \<open>
  Both \<^verbatim>\<open>crop_data_with_overlap\<close> and \<^verbatim>\<open>merge_data_with_overlap\<close> run the same loop:
  \<^verbatim>\<open>min_d = sys.maxsize; rows = 1; columns = 1\<close>, then for \<open>i\<close> in
  \<^verbatim>\<open>range(1, int(subdivision/2)+1)\<close> the pair is replaced when \<open>i\<close> divides
  \<open>subdivision\<close> and \<^verbatim>\<open>abs(subdivision/i - i) < min_d\<close>.  The quotient is taken only
  when \<open>i\<close> divides \<open>subdivision\<close>, where the float division is exact for
  every \<open>subdivision\<close> below \<open>2^53\<close>.
\<close>

definition sys_maxsize :: int where
  "sys_maxsize = 2 ^ 63 - 1"

definition float_exact_bound :: int where
  "float_exact_bound = 2 ^ 53"

definition min_overlap_step :: "int \<Rightarrow> int \<Rightarrow> int \<times> int \<times> int \<Rightarrow> int \<times> int \<times> int" where
  "min_overlap_step subdivision i st =
     (case st of (min_d, rows, columns) \<Rightarrow>
        if subdivision mod i = 0 \<and> \<bar>subdivision div i - i\<bar> < min_d
        then (\<bar>subdivision div i - i\<bar>, i, subdivision div i)
        else (min_d, rows, columns))"

definition min_overlap_loop :: "int \<Rightarrow> int \<Rightarrow> int \<times> int \<times> int" where
  "min_overlap_loop subdivision k = fold (min_overlap_step subdivision) [1..k] (sys_maxsize, 1, 1)"

definition min_overlap_config :: "int \<Rightarrow> int \<times> int" where
  "min_overlap_config subdivision =
     (case min_overlap_loop subdivision (py_trunc_div subdivision 2) of
        (min_d, rows, columns) \<Rightarrow> (rows, columns))"

section \<open>The flip step of \<^verbatim>\<open>apply_transform\<close>\<close>

text \<open>
  One draw \<^verbatim>\<open>prob = random.uniform(0, 1)\<close> selects among three branches of an
  \<^verbatim>\<open>if/elif/elif\<close>; \<^verbatim>\<open>np.flip(a, 0)\<close> reverses the rows, \<^verbatim>\<open>np.flip(a, 1)\<close> reverses
  every row.  The state carries the image, the mask, the description string, the
  \<^verbatim>\<open>transformed\<close> flag and the six counters of \<^verbatim>\<open>self.t_counter\<close>.
\<close>

record 'a transform_state =
  trans_image :: "'a list list"
  trans_mask :: "'a list list"
  transform_string :: string
  transformed :: bool
  t_counter :: "nat list"

definition flip0 :: "'a list list \<Rightarrow> 'a list list" where
  "flip0 a = rev a"

definition flip1 :: "'a list list \<Rightarrow> 'a list list" where
  "flip1 a = map rev a"

definition bump :: "nat \<Rightarrow> nat list \<Rightarrow> nat list" where
  "bump i cs = cs[i := cs ! i + 1]"

definition flip_step :: "bool \<Rightarrow> bool \<Rightarrow> real \<Rightarrow> 'a transform_state \<Rightarrow> 'a transform_state" where
  "flip_step vflip hflip prob st =
     (if vflip \<and> 0 \<le> prob \<and> prob < 0.25 then
        st\<lparr>trans_image := flip0 (trans_image st), trans_mask := flip0 (trans_mask st),
           transform_string := transform_string st @ ''_vf'', transformed := True,
           t_counter := bump 1 (t_counter st)\<rparr>
      else if hflip \<and> 0.25 \<le> prob \<and> prob < 0.5 then
        st\<lparr>trans_image := flip1 (trans_image st), trans_mask := flip1 (trans_mask st),
           transform_string := transform_string st @ ''_hf'', transformed := True,
           t_counter := bump 2 (t_counter st)\<rparr>
      else if hflip \<and> 0.5 \<le> prob \<and> prob < 0.75 then
        st\<lparr>trans_image := flip1 (flip0 (trans_image st)),
           trans_mask := flip1 (flip0 (trans_mask st)),
           transform_string := transform_string st @ ''_hfvf'', transformed := True,
           t_counter := bump 2 (bump 1 (t_counter st))\<rparr>
      else st)"

section \<open>Random crop\<close>

text \<open>
  \<^verbatim>\<open>random_crop(img, mask, random_crop_size, val, prob_map, draw_prob_map_points,
  img_prob)\<close>.  An array carries its shape.  The values drawn from NumPy's generator
  are an argument: the index returned by \<^verbatim>\<open>np.random.choice\<close> and the two results of
  \<^verbatim>\<open>np.random.randint\<close>.
\<close>

record 'a array3 =
  shape0 :: nat
  shape1 :: nat
  shape2 :: nat
  elems :: "'a list list list"

record draws =
  choice_index :: nat
  randint_x :: int
  randint_y :: int

definition crop_origin_1d :: "int \<Rightarrow> int \<Rightarrow> int \<Rightarrow> int" where
  "crop_origin_1d p extent crop_len =
     (if p < py_trunc_div crop_len 2 then 0
      else if p > extent - py_trunc_div crop_len 2 then extent - crop_len
      else p - py_trunc_div crop_len 2)"

definition random_crop ::
  "'a array3 \<Rightarrow> 'b list list list \<Rightarrow> int \<times> int \<Rightarrow> bool \<Rightarrow> bool \<Rightarrow> bool \<Rightarrow> (nat \<times> nat) option
     \<Rightarrow> draws \<Rightarrow> error + ('a list list list \<times> 'b list list list \<times> (int \<times> int \<times> int \<times> int) option)" where
  "random_crop img msk random_crop_size val prob_map draw_prob_map_points img_prob rnd =
     (if shape2 img \<noteq> 1 then Inl AssertionError
      else
        let height = int (shape0 img); width = int (shape1 img);
            dy = fst random_crop_size; dx = snd random_crop_size;
            origin =
              (if val then Inr (0, 0, None)
               else if prob_map then
                 (case img_prob of
                    None \<Rightarrow> Inl AttributeError
                  | Some (ph, pw) \<Rightarrow>
                      if pw = 0 then Inl ValueError
                      else
                        let oy = int (choice_index rnd div pw);
                            ox = int (choice_index rnd mod pw);
                            y = crop_origin_1d oy height dy;
                            x = crop_origin_1d ox width dx
                        in Inr (x, y, Some (ox, oy)))
               else if width - dx + 1 \<le> 0 \<or> height - dy + 1 \<le> 0 then Inl ValueError
               else Inr (randint_x rnd, randint_y rnd, None))
        in case origin of
             Inl e \<Rightarrow> Inl e
           | Inr (x, y, pt) \<Rightarrow>
               let ci = py_slice2 y (y + dy) x (x + dx) (elems img);
                   cm = py_slice2 y (y + dy) x (x + dx) msk
               in if draw_prob_map_points then
                    (case pt of
                       None \<Rightarrow> Inl UnboundLocalError
                     | Some (ox, oy) \<Rightarrow> Inr (ci, cm, Some (ox, oy, x, y)))
                  else Inr (ci, cm, None))"


section \<open>Arrays\<close>

text \<open>
  A four-dimensional NumPy array \<^verbatim>\<open>[N, H, W, C]\<close> with its shape.  \<open>wf_array4\<close> says
  that the nested lists have the extents the shape announces.
\<close>

record 'a array4 =
  n_imgs :: nat
  height :: nat
  width :: nat
  channels :: nat
  imgs :: "'a list list list list"



definition zeros3 :: "nat \<Rightarrow> nat \<Rightarrow> nat \<Rightarrow> rat list list list" where
  "zeros3 h w c = replicate h (replicate w (replicate c 0))"

definition slice_len :: "int \<Rightarrow> int \<Rightarrow> nat \<Rightarrow> nat" where
  "slice_len a b n = clip_index n b - clip_index n a"

text \<open>
  NumPy broadcasting of a value into a target of fixed shape: an extent of the value
  must equal the extent of the target or be 1, in which case the single entry is
  repeated.
\<close>

definition broadcastable :: "nat \<Rightarrow> nat \<Rightarrow> bool" where
  "broadcastable src dst = (src = dst \<or> src = 1)"

definition broadcast_to :: "nat \<Rightarrow> 'a list \<Rightarrow> 'a list" where
  "broadcast_to n xs = (if length xs = n then xs else replicate n (hd xs))"

definition broadcast3 ::
  "nat \<times> nat \<times> nat \<Rightarrow> nat \<times> nat \<times> nat \<Rightarrow> 'a list list list \<Rightarrow> error + 'a list list list" where
  "broadcast3 dst src v =
     (case dst of (h, w, c) \<Rightarrow> case src of (h', w', c') \<Rightarrow>
        if broadcastable h' h \<and> broadcastable w' w \<and> broadcastable c' c
        then Inr (broadcast_to h (map (\<lambda>row. broadcast_to w (map (broadcast_to c) row)) v))
        else Inl ValueError)"

text \<open>\<^verbatim>\<open>arr[n] = v\<close> on the first axis: \<^verbatim>\<open>IndexError\<close> beyond the extent.\<close>

definition store :: "'a list \<Rightarrow> nat \<Rightarrow> 'a \<Rightarrow> error + 'a list" where
  "store xs n v = (if n < length xs then Inr (xs[n := v]) else Inl IndexError)"

text \<open>A \<^verbatim>\<open>for i in range(start, stop, step)\<close> loop over a state.\<close>

definition for_range ::
  "int \<Rightarrow> int \<Rightarrow> int \<Rightarrow> (int \<Rightarrow> 's \<Rightarrow> error + 's) \<Rightarrow> 's \<Rightarrow> error + 's" where
  "for_range start stop step body s =
     (case py_range start stop step of Inl e \<Rightarrow> Inl e | Inr is \<Rightarrow> foldM body is s)"


section \<open>Grid cropper\<close>

text \<open>
  \<^verbatim>\<open>crop_data(data, crop_shape, data_mask, force_shape, d_percentage)\<close>.  The number of
  tiles per axis, when \<^verbatim>\<open>force_shape == [0, 0]\<close>, is
  \<^verbatim>\<open>int(data.shape[1] / crop_shape[0]) + (data.shape[1] % crop_shape[0] > 0)\<close> and
  \<^verbatim>\<open>int(data.shape[2] / crop_shape[1]) + (data.shape[2] % crop_shape[1] > 0)\<close>.
\<close>

definition crop_layout :: "nat \<Rightarrow> nat \<Rightarrow> int \<times> int \<Rightarrow> int \<times> int \<Rightarrow> error + int \<times> int" where
  "crop_layout data_shape1 data_shape2 crop_shape force_shape =
     (if force_shape = (0, 0) then
        if fst crop_shape = 0 then Inl ZeroDivisionError
        else if snd crop_shape = 0 then Inl ZeroDivisionError
        else Inr (py_trunc_div (int data_shape1) (fst crop_shape)
                    + (if int data_shape1 mod fst crop_shape > 0 then 1 else 0),
                  py_trunc_div (int data_shape2) (snd crop_shape)
                    + (if int data_shape2 mod snd crop_shape > 0 then 1 else 0))
      else Inr force_shape)"

text \<open>
  \<^verbatim>\<open>r_data = np.zeros((N, h_num*crop_shape[1], v_num*crop_shape[0], C))\<close> followed by
  \<^verbatim>\<open>r_data[:N, :H, :W, :C] = data\<close>: the assignment raises unless the data fit the
  target part (or broadcast into it).
\<close>

definition pad_to :: "nat \<Rightarrow> 'a \<Rightarrow> 'a list \<Rightarrow> 'a list" where
  "pad_to n z xs = take n xs @ replicate (n - length xs) z"

definition resize_data :: "rat array4 \<Rightarrow> int \<Rightarrow> int \<Rightarrow> error + rat array4" where
  "resize_data data r_h r_w =
     (if r_h < 0 \<or> r_w < 0 then Inl ValueError
      else if \<not> (broadcastable (height data) (min (height data) (nat r_h))
                \<and> broadcastable (width data) (min (width data) (nat r_w)))
      then Inl ValueError
      else Inr \<lparr>n_imgs = n_imgs data, height = nat r_h, width = nat r_w, channels = channels data,
                imgs = map (\<lambda>img. pad_to (nat r_h) (replicate (nat r_w) (replicate (channels data) 0))
                                  (map (pad_to (nat r_w) (replicate (channels data) 0)) img))
                           (imgs data)\<rparr>)"

text \<open>
  The window of tile \<open>(i, j)\<close>: rows \<^verbatim>\<open>(i*crop_shape[0]):((i+1)*crop_shape[1])\<close>, columns
  \<^verbatim>\<open>(j*crop_shape[0]):((j+1)*crop_shape[1])\<close>, as the source writes them.
\<close>

definition grid_window ::
  "int \<times> int \<Rightarrow> int \<Rightarrow> int \<Rightarrow> rat array4 \<Rightarrow> nat \<Rightarrow> (nat \<times> nat \<times> nat) \<times> rat list list list" where
  "grid_window crop_shape i j a img_num =
     ((slice_len (i * fst crop_shape) ((i + 1) * snd crop_shape) (height a),
       slice_len (j * fst crop_shape) ((j + 1) * snd crop_shape) (width a),
       channels a),
      py_slice2 (i * fst crop_shape) ((i + 1) * snd crop_shape)
                (j * fst crop_shape) ((j + 1) * snd crop_shape) (imgs a ! img_num))"

text \<open>
  The ratio of a mask tile.  The tile keeps its channel axis, so the comparison
  \<^verbatim>\<open>mask[i][j] == class_tag\<close> yields an array whose truth value is defined for at most
  one channel.
\<close>

definition tile_ratio :: "(nat \<times> nat \<times> nat) \<times> rat list list list \<Rightarrow> error + rat" where
  "tile_ratio t =
     (case t of ((h, w, c), tile) \<Rightarrow>
        if h * w \<noteq> 0 \<and> 1 < c then Inl ValueError else foreground_percentage tile [1])"

text \<open>First pass: the positions \<open>cont\<close> of the tiles whose ratio exceeds the threshold.\<close>

definition select_step ::
  "int \<times> int \<Rightarrow> rat \<Rightarrow> rat array4 \<Rightarrow> nat \<Rightarrow> int \<Rightarrow> int
     \<Rightarrow> nat list \<times> nat \<times> nat \<Rightarrow> error + nat list \<times> nat \<times> nat" where
  "select_step crop_shape d_percentage r_data_mask img_num i j st =
     (case st of (selected_images, discarded, cont) \<Rightarrow>
        if \<not> img_num < n_imgs r_data_mask then Inl IndexError
        else case tile_ratio (grid_window crop_shape i j r_data_mask img_num) of
               Inl e \<Rightarrow> Inl e
             | Inr p \<Rightarrow>
                 if p > d_percentage then Inr (selected_images @ [cont], discarded, cont + 1)
                 else Inr (selected_images, discarded + 1, cont + 1))"

definition select_images ::
  "int \<times> int \<Rightarrow> rat \<Rightarrow> rat array4 \<Rightarrow> nat \<Rightarrow> int \<Rightarrow> int \<Rightarrow> error + nat list \<times> nat \<times> nat" where
  "select_images crop_shape d_percentage r_data_mask n h_num v_num =
     foldM (\<lambda>img_num. for_range 0 h_num 1 (\<lambda>i. for_range 0 v_num 1
              (select_step crop_shape d_percentage r_data_mask img_num i)))
       [0..<n] ([], 0, 0)"

text \<open>
  Second pass.  With discarding active and a non-empty selection a tile is written to
  slot \<open>l_i\<close> when \<^verbatim>\<open>selected_images[l_i] == cont or l_i == len(selected_images) - 1\<close>;
  otherwise every tile is written to slot \<open>cont\<close>.
\<close>

definition write_tile ::
  "nat \<times> nat \<times> nat \<Rightarrow> rat list list list list \<Rightarrow> nat
     \<Rightarrow> (nat \<times> nat \<times> nat) \<times> rat list list list \<Rightarrow> error + rat list list list list" where
  "write_tile dst arr n t =
     (if \<not> n < length arr then Inl IndexError
      else case broadcast3 dst (fst t) (snd t) of
             Inl e \<Rightarrow> Inl e
           | Inr v \<Rightarrow> store arr n v)"

definition crop_step ::
  "int \<times> int \<Rightarrow> bool \<Rightarrow> nat list \<Rightarrow> rat array4 \<Rightarrow> rat array4 option \<Rightarrow> nat \<Rightarrow> int \<Rightarrow> int
     \<Rightarrow> nat \<times> nat \<times> rat list list list list \<times> rat list list list list
     \<Rightarrow> error + nat \<times> nat \<times> rat list list list list \<times> rat list list list list" where
  "crop_step crop_shape discarding selected_images r_data r_data_mask img_num i j st =
     (case st of (cont, l_i, cropped_data, cropped_data_mask) \<Rightarrow>
        let dst = (nat (snd crop_shape), nat (fst crop_shape), channels r_data) in
        if discarding \<and> selected_images \<noteq> [] then
          (if selected_images ! l_i = cont \<or> l_i = length selected_images - 1 then
             (case write_tile dst cropped_data l_i (grid_window crop_shape i j r_data img_num) of
                Inl e \<Rightarrow> Inl e
              | Inr cd \<Rightarrow>
                  (case r_data_mask of
                     None \<Rightarrow> Inl AttributeError
                   | Some m \<Rightarrow>
                       if \<not> img_num < n_imgs m then Inl IndexError
                       else
                       (case write_tile (nat (snd crop_shape), nat (fst crop_shape), channels m)
                               cropped_data_mask l_i (grid_window crop_shape i j m img_num) of
                          Inl e \<Rightarrow> Inl e
                        | Inr cm \<Rightarrow>
                            Inr (cont + 1,
                                 (if l_i \<noteq> length selected_images - 1 then l_i + 1 else l_i),
                                 cd, cm))))
           else Inr (cont + 1, l_i, cropped_data, cropped_data_mask))
        else
          (case write_tile dst cropped_data cont (grid_window crop_shape i j r_data img_num) of
             Inl e \<Rightarrow> Inl e
           | Inr cd \<Rightarrow>
               (case r_data_mask of
                  None \<Rightarrow> Inr (cont + 1, l_i, cd, cropped_data_mask)
                | Some m \<Rightarrow>
                    if \<not> img_num < n_imgs m then Inl IndexError
                    else
                    (case write_tile (nat (snd crop_shape), nat (fst crop_shape), channels m)
                            cropped_data_mask cont (grid_window crop_shape i j m img_num) of
                       Inl e \<Rightarrow> Inl e
                     | Inr cm \<Rightarrow> Inr (cont + 1, l_i, cd, cm)))))"

definition crop_data ::
  "rat array4 \<Rightarrow> int \<times> int \<Rightarrow> rat array4 option \<Rightarrow> int \<times> int \<Rightarrow> rat
     \<Rightarrow> error + rat list list list list \<times> rat list list list list option \<times> (int \<times> int)" where
  "crop_data data crop_shape data_mask force_shape d_percentage =
     (case crop_layout (height data) (width data) crop_shape force_shape of
        Inl e \<Rightarrow> Inl e
      | Inr (h_num, v_num) \<Rightarrow>
     (case resize_data data (h_num * snd crop_shape) (v_num * fst crop_shape) of
        Inl e \<Rightarrow> Inl e
      | Inr r_data \<Rightarrow>
     (case (case data_mask of
              None \<Rightarrow> Inr None
            | Some m \<Rightarrow>
                (case resize_data m (h_num * snd crop_shape) (v_num * fst crop_shape) of
                   Inl e \<Rightarrow> Inl e | Inr rm \<Rightarrow> Inr (Some rm))) of
        Inl e \<Rightarrow> Inl e
      | Inr r_data_mask \<Rightarrow>
     let total_cropped = int (n_imgs data) * h_num * v_num;
         discarding = (d_percentage > 0 \<and> data_mask \<noteq> None) in
     (case (if discarding
            then select_images crop_shape d_percentage (the r_data_mask) (n_imgs r_data) h_num v_num
            else Inr ([], 0, 0)) of
        Inl e \<Rightarrow> Inl e
      | Inr (selected_images, discarded, _) \<Rightarrow>
     if total_cropped - int discarded < 0 \<or> snd crop_shape < 0 \<or> fst crop_shape < 0
     then Inl ValueError
     else
     let slots = nat (total_cropped - int discarded);
         cropped_data = replicate slots
                          (zeros3 (nat (snd crop_shape)) (nat (fst crop_shape)) (channels r_data));
         cropped_data_mask =
           (case r_data_mask of
              None \<Rightarrow> []
            | Some m \<Rightarrow> replicate slots
                          (zeros3 (nat (snd crop_shape)) (nat (fst crop_shape)) (channels m)))
     in
     (case foldM (\<lambda>img_num. for_range 0 h_num 1 (\<lambda>i. for_range 0 v_num 1
                    (crop_step crop_shape discarding selected_images r_data r_data_mask img_num i)))
             [0..<n_imgs r_data] (0, 0, cropped_data, cropped_data_mask) of
        Inl e \<Rightarrow> Inl e
      | Inr (_, _, cd, cm) \<Rightarrow>
          Inr (cd, (if data_mask = None then None else Some cm), (h_num, v_num)))))))"

section \<open>Overlap tiler\<close>

text \<open>
  \<^verbatim>\<open>crop_data_with_overlap(data, data_mask, window_size, subdivision)\<close>.  Per axis with
  \<open>k\<close> tiles the source computes the overlap \<^verbatim>\<open>int(abs(dim - window_size*k)/(k-1))\<close>,
  the remainder \<^verbatim>\<open>abs(dim - window_size*k) % (k-1)\<close> and the step
  \<^verbatim>\<open>window_size - overlap\<close>; for \<open>k = 1\<close> they are \<open>0\<close>, \<open>0\<close> and the extent \<open>dim\<close>.
\<close>

definition axis_overlap :: "int \<Rightarrow> int \<Rightarrow> int \<Rightarrow> int \<times> int \<times> int" where
  "axis_overlap extent window_size k =
     (if k \<noteq> 1 then
        (py_trunc_div \<bar>extent - window_size * k\<bar> (k - 1),
         \<bar>extent - window_size * k\<bar> mod (k - 1),
         window_size - py_trunc_div \<bar>extent - window_size * k\<bar> (k - 1))
      else (0, 0, extent))"

text \<open>\<^verbatim>\<open>d = 0 if (i + window_size) < dim else r\<close>.\<close>

definition window_shift :: "int \<Rightarrow> int \<Rightarrow> int \<Rightarrow> int \<Rightarrow> int" where
  "window_shift i window_size extent r = (if i + window_size < extent then 0 else r)"

definition overlap_window ::
  "rat array4 \<Rightarrow> nat \<Rightarrow> int \<Rightarrow> int \<Rightarrow> int \<Rightarrow> int \<Rightarrow> (nat \<times> nat \<times> nat) \<times> rat list list list" where
  "overlap_window a k y0 y1 x0 x1 =
     ((slice_len y0 y1 (height a), slice_len x0 x1 (width a), channels a),
      py_slice2 y0 y1 x0 x1 (imgs a ! k))"

definition overlap_crop_step ::
  "rat array4 \<Rightarrow> rat array4 \<Rightarrow> int \<Rightarrow> int \<Rightarrow> int \<Rightarrow> nat \<Rightarrow> int \<Rightarrow> int
     \<Rightarrow> nat \<times> rat list list list list \<times> rat list list list list
     \<Rightarrow> error + nat \<times> rat list list list list \<times> rat list list list list" where
  "overlap_crop_step data data_mask window_size r_y r_x k i j st =
     (case st of (cont, cropped_data, cropped_data_mask) \<Rightarrow>
        let d_y = window_shift i window_size (int (height data)) r_y;
            d_x = window_shift j window_size (int (width data)) r_x;
            dst = (nat window_size, nat window_size, channels data)
        in case write_tile dst cropped_data cont
                  (overlap_window data k (i - d_y) (i + window_size) (j - d_x) (j + window_size)) of
             Inl e \<Rightarrow> Inl e
           | Inr cd \<Rightarrow>
               if \<not> k < n_imgs data_mask then Inl IndexError
               else
               (case write_tile dst cropped_data_mask cont
                       (overlap_window data_mask k (i - d_y) (i + window_size)
                          (j - d_x) (j + window_size)) of
                  Inl e \<Rightarrow> Inl e
                | Inr cm \<Rightarrow> Inr (cont + 1, cd, cm)))"

definition crop_data_with_overlap ::
  "rat array4 \<Rightarrow> rat array4 \<Rightarrow> int \<Rightarrow> int \<Rightarrow> error + rat array4 \<times> rat array4" where
  "crop_data_with_overlap data data_mask window_size subdivision =
     (if \<not> (subdivision mod 2 = 0 \<or> subdivision = 1) then Inl AssertionError
      else if \<not> window_size \<le> int (height data) then Inl AssertionError
      else if \<not> window_size \<le> int (width data) then Inl AssertionError
      else
        let total_cropped = int (n_imgs data) * subdivision in
        if total_cropped < 0 \<or> window_size < 0 then Inl ValueError
        else
        (case min_overlap_config subdivision of (rows, columns) \<Rightarrow>
           if subdivision \<noteq> 1 \<and> \<not> int (height data) \<le> window_size * rows
           then Inl AssertionError
           else if subdivision \<noteq> 1 \<and> \<not> int (width data) \<le> window_size * columns
           then Inl AssertionError
           else
           (case axis_overlap (int (height data)) window_size rows of (y_ov, r_y, step_y) \<Rightarrow>
            case axis_overlap (int (width data)) window_size columns of (x_ov, r_x, step_x) \<Rightarrow>
              let z = replicate (nat total_cropped)
                        (zeros3 (nat window_size) (nat window_size) (channels data))
              in
              (case foldM (\<lambda>k. for_range 0 (int (height data) - y_ov) step_y
                            (\<lambda>i. for_range 0 (int (width data) - x_ov) step_x
                               (overlap_crop_step data data_mask window_size r_y r_x k i)))
                      [0..<n_imgs data] (0, z, z) of
                 Inl e \<Rightarrow> Inl e
               | Inr (cont, cd, cm) \<Rightarrow>
                   Inr (\<lparr>n_imgs = nat total_cropped, height = nat window_size,
                          width = nat window_size, channels = channels data, imgs = cd\<rparr>,
                        \<lparr>n_imgs = nat total_cropped, height = nat window_size,
                          width = nat window_size, channels = channels data, imgs = cm\<rparr>)))))"

section \<open>Overlap merger\<close>








section \<open>Auxiliary predicates for the proofs\<close>

text \<open>The distance \<open>|subdivision/i - i|\<close> that the factorisation loop minimises, and the
  invariant of that loop after the candidates \<open>1..k\<close>.\<close>

definition gap :: "int \<Rightarrow> int \<Rightarrow> int" where
  "gap s i = \<bar>s div i - i\<bar>"

definition least_gap :: "int \<Rightarrow> int \<Rightarrow> int \<Rightarrow> int \<Rightarrow> bool" where
  "least_gap s k m r =
     (\<forall>i. 1 \<le> i \<and> i \<le> k \<and> s mod i = 0 \<longrightarrow> m \<le> gap s i \<and> (gap s i = m \<longrightarrow> r \<le> i))"

definition loop_inv :: "int \<Rightarrow> int \<Rightarrow> int \<times> int \<times> int \<Rightarrow> bool" where
  "loop_inv s k st = (case st of (m, r, c) \<Rightarrow>
      1 \<le> r \<and> r \<le> k \<and> s mod r = 0 \<and> c = s div r \<and> m = gap s r \<and> least_gap s k m r)"











section \<open>Properties of the foreground ratio\<close>

lemma fold_nth_upt: "fold (\<lambda>i c. g (xs ! i) c) [0..<length xs] c = fold g xs c"
proof -
  have "fold g (map ((!) xs) [0..<length xs]) c = fold g xs c" by (simp add: map_nth)
  then show ?thesis by (simp add: fold_map comp_def)
qed

lemma fold_count: "fold (\<lambda>v c. if v = t then c + 1 else c) xs c = c + count_list xs t"
  by (induction xs arbitrary: c) auto

lemma fold_rows_count:
  "\<forall>r \<in> set m. length r = w \<Longrightarrow>
   fold (\<lambda>r c. fold (\<lambda>j c. if r ! j = t then c + 1 else c) [0..<w] c) m c
     = c + count_list (concat m) t"
proof (induction m arbitrary: c)
  case Nil
  then show ?case by simp
next
  case (Cons r m)
  have "fold (\<lambda>j c. if r ! j = t then c + 1 else c) [0..<w] c = c + count_list r t"
    using Cons.prems fold_nth_upt[of "\<lambda>v c. if v = t then c + 1 else c" r c]
    by (simp add: fold_count)
  then show ?case using Cons by simp
qed

lemma foreground_count_eq:
  assumes "rectangular msk"
  shows "foreground_count msk t = count_list (concat msk) t"
proof -
  have "foreground_count msk t =
        fold (\<lambda>r c. fold (\<lambda>j c. if r ! j = t then c + 1 else c) [0..<ncols msk] c) msk 0"
    unfolding foreground_count_def nrows_def
    using fold_nth_upt[of "\<lambda>r c. fold (\<lambda>j c. if r ! j = t then c + 1 else c) [0..<ncols msk] c" msk 0]
    by simp
  also have "\<dots> = count_list (concat msk) t"
    using fold_rows_count[of msk "ncols msk" t 0] assms by (simp add: rectangular_def)
  finally show ?thesis .
qed

lemma length_concat_rect:
  "\<forall>r \<in> set m. length r = w \<Longrightarrow> length (concat m) = length m * w"
  by (induction m) auto

lemma count_list_le_length: "count_list xs t \<le> length xs"
  by (induction xs) auto

lemma count_list_0: "t \<notin> set xs \<Longrightarrow> count_list xs t = 0"
  by (induction xs) auto

lemma scenario_mask_ratio:
  "foreground_percentage [[1, 1, 0, 0], [1, 1, 0, 0], [0, 0, 0, 0], [0, 0, 0, 0 :: int]] 1 = Inr 25"
  by (simp add: foreground_percentage_def foreground_count_def nrows_def ncols_def
      upt_rec[of _ "numeral _"] upt_rec[of _ "Suc _"])

text \<open>
  C7.  For a rectangular mask with at least one entry, \<open>foreground_percentage\<close> returns
  one hundred times the number of entries equal to the class tag divided by the number
  of entries; the value lies between 0 and 100 and is 0 when no entry carries the tag.
  The \<open>4 \<times> 4\<close> mask of the scenario yields 25.  The function is pure: it returns a
  value and changes nothing.
\<close>

theorem foreground_percentage_ratio:
  assumes "rectangular msk" and "0 < nrows msk * ncols msk"
  shows "(\<exists>p. foreground_percentage msk class_tag = Inr p
           \<and> p = 100 * of_nat (count_list (concat msk) class_tag) / of_nat (nrows msk * ncols msk)
           \<and> 0 \<le> p \<and> p \<le> 100
           \<and> (class_tag \<notin> set (concat msk) \<longrightarrow> p = 0))
         \<and> foreground_percentage [[1, 1, 0, 0], [1, 1, 0, 0], [0, 0, 0, 0], [0, 0, 0, 0 :: int]] 1
             = Inr 25"
proof -
  let ?c = "count_list (concat msk) class_tag"
  let ?n = "nrows msk * ncols msk"
  let ?p = "100 * of_nat ?c / (of_nat ?n :: rat)"
  have len: "length (concat msk) = ?n"
    using assms(1) length_concat_rect[of msk "ncols msk"] by (simp add: rectangular_def nrows_def)
  have le: "?c \<le> ?n" using count_list_le_length[of "concat msk" class_tag] len by simp
  have r: "foreground_percentage msk class_tag = Inr ?p"
    using assms by (simp add: foreground_percentage_def foreground_count_eq Let_def)
  have npos: "(0::rat) < of_nat ?n" using assms(2) by simp
  have "(of_nat ?c :: rat) \<le> of_nat ?n" using le by (simp only: of_nat_le_iff)
  then have up: "?p \<le> 100" using npos by (simp add: divide_le_eq)
  have lo: "0 \<le> ?p" by simp
  have z: "class_tag \<notin> set (concat msk) \<longrightarrow> ?p = 0" by (simp add: count_list_0)
  show ?thesis using r up lo z scenario_mask_ratio by blast
qed

theorem foreground_percentage_ratio_witness:
  "rectangular [[1, 0], [0, 0 :: int]] \<and> 0 < nrows [[1, 0], [0, 0 :: int]] * ncols [[1, 0], [0, 0 :: int]]
   \<and> foreground_percentage [[1, 0], [0, 0 :: int]] 1 = Inr 25
   \<and> foreground_percentage [[1, 0], [0, 0 :: int]] 7 = Inr 0"
proof -
  have h: "rectangular [[1, 0], [0, 0 :: int]]" "0 < nrows [[1, 0], [0, 0 :: int]] * ncols [[1, 0], [0, 0 :: int]]"
    by (simp_all add: rectangular_def nrows_def ncols_def)
  show ?thesis
    using h foreground_percentage_ratio[OF h, of 1] foreground_percentage_ratio[OF h, of 7]
    by (simp add: nrows_def ncols_def)
qed

section \<open>Properties of the factorisation\<close>

lemma min_overlap_loop_Suc:
  assumes "1 \<le> k"
  shows "min_overlap_loop s (k + 1) = min_overlap_step s (k + 1) (min_overlap_loop s k)"
proof -
  have "[1..k + 1] = [1..k] @ [k + 1]" using assms upto_rec2[of 1 "k + 1"] by simp
  then show ?thesis by (simp add: min_overlap_loop_def)
qed

lemma least_gapI:
  assumes "\<And>i. 1 \<le> i \<Longrightarrow> i \<le> k \<Longrightarrow> s mod i = 0 \<Longrightarrow> m \<le> gap s i \<and> (gap s i = m \<longrightarrow> r \<le> i)"
  shows "least_gap s k m r"
  unfolding least_gap_def
proof (intro allI impI)
  fix i assume "1 \<le> i \<and> i \<le> k \<and> s mod i = 0"
  then have "1 \<le> i" "i \<le> k" "s mod i = 0" by simp_all
  then show "m \<le> gap s i \<and> (gap s i = m \<longrightarrow> r \<le> i)" by (rule assms)
qed

lemma least_gapD:
  assumes "least_gap s k m r" "1 \<le> i" "i \<le> k" "s mod i = 0"
  shows "m \<le> gap s i \<and> (gap s i = m \<longrightarrow> r \<le> i)"
proof -
  have "1 \<le> i \<and> i \<le> k \<and> s mod i = 0 \<longrightarrow> m \<le> gap s i \<and> (gap s i = m \<longrightarrow> r \<le> i)"
    using assms(1) unfolding least_gap_def by (rule allE)
  then show ?thesis using assms(2-4) by simp
qed

lemma loop_inv_base:
  assumes "2 \<le> s" "s - 1 < sys_maxsize"
  shows "loop_inv s 1 (min_overlap_loop s 1)"
proof -
  have g: "gap s 1 = s - 1" using assms(1) by (simp add: gap_def)
  have "[1..1::int] = [1]" by (simp add: upto.simps)
  then have "min_overlap_loop s 1 = min_overlap_step s 1 (sys_maxsize, 1, 1)"
    unfolding min_overlap_loop_def by (simp only: fold_simps id_apply comp_apply)
  also have "\<dots> = (s - 1, 1, s)"
    unfolding min_overlap_step_def prod.case using assms by simp
  finally have st: "min_overlap_loop s 1 = (s - 1, 1, s)" .
  have "least_gap s 1 (s - 1) 1"
  proof (rule least_gapI)
    fix i :: int assume "1 \<le> i" "i \<le> 1"
    then have "i = 1" by simp
    then show "s - 1 \<le> gap s i \<and> (gap s i = s - 1 \<longrightarrow> 1 \<le> i)" using g by simp
  qed
  then show ?thesis unfolding st loop_inv_def using g by simp
qed

lemma loop_inv_step:
  assumes "1 \<le> k" "loop_inv s k st"
  shows "loop_inv s (k + 1) (min_overlap_step s (k + 1) st)"
proof -
  obtain m r c where st: "st = (m, r, c)" by (cases st)
  have conj: "1 \<le> r \<and> r \<le> k \<and> s mod r = 0 \<and> c = s div r \<and> m = gap s r \<and> least_gap s k m r"
    using assms(2) unfolding loop_inv_def st prod.case .
  have inv: "1 \<le> r" "r \<le> k" "s mod r = 0" "c = s div r" "m = gap s r" "least_gap s k m r"
    using conj by blast+
  show ?thesis
  proof (cases "s mod (k + 1) = 0 \<and> gap s (k + 1) < m")
    case True
    then have eq: "min_overlap_step s (k + 1) st = (gap s (k + 1), k + 1, s div (k + 1))"
      by (simp add: min_overlap_step_def st gap_def)
    have "least_gap s (k + 1) (gap s (k + 1)) (k + 1)"
    proof (rule least_gapI)
      fix i :: int assume i: "1 \<le> i" "i \<le> k + 1" "s mod i = 0"
      show "gap s (k + 1) \<le> gap s i \<and> (gap s i = gap s (k + 1) \<longrightarrow> k + 1 \<le> i)"
      proof (cases "i = k + 1")
        case True then show ?thesis by simp
      next
        case False
        then have "i \<le> k" using i by simp
        then have "m \<le> gap s i" using least_gapD[OF inv(6) i(1) _ i(3)] by simp
        then show ?thesis using True by linarith
      qed
    qed
    then show ?thesis unfolding eq loop_inv_def using True assms(1) by simp
  next
    case False
    then have eq: "min_overlap_step s (k + 1) st = (m, r, c)"
      by (auto simp add: min_overlap_step_def st gap_def)
    have "least_gap s (k + 1) m r"
    proof (rule least_gapI)
      fix i :: int assume i: "1 \<le> i" "i \<le> k + 1" "s mod i = 0"
      show "m \<le> gap s i \<and> (gap s i = m \<longrightarrow> r \<le> i)"
      proof (cases "i = k + 1")
        case True then show ?thesis using False i inv(2) by auto
      next
        case F: False
        then have "i \<le> k" using i by simp
        then show ?thesis using least_gapD[OF inv(6) i(1) _ i(3)] by simp
      qed
    qed
    then show ?thesis unfolding eq loop_inv_def using inv by simp
  qed
qed

lemma loop_inv_all:
  assumes "2 \<le> s" "s - 1 < sys_maxsize" "1 \<le> k"
  shows "loop_inv s k (min_overlap_loop s k)"
  using assms(3)
proof (induction k rule: int_ge_induct)
  case base
  show ?case using loop_inv_base[OF assms(1,2)] .
next
  case (step i)
  show ?case using loop_inv_step[OF step.hyps step.IH] min_overlap_loop_Suc[OF step.hyps] by simp
qed


lemma big_divisor:
  fixes s r c :: int
  assumes "0 < s" "0 < r" "r * c = s" "s div 2 < r"
  shows "r = s \<and> c = 1"
proof -
  have cpos: "0 < c" using assms(1,2,3) zero_less_mult_pos[of r c] by simp
  have "c < 2"
  proof (rule ccontr)
    assume "\<not> c < 2"
    then have "2 \<le> c" by simp
    then have "r * 2 \<le> r * c" using assms(2) by (simp add: mult_left_mono)
    then have "2 * r \<le> s" using assms(3) by simp
    then show False using assms(4) by linarith
  qed
  then have "c = 1" using cpos by simp
  then show ?thesis using assms(3) by simp
qed


lemma py_trunc_div_2: "0 \<le> s \<Longrightarrow> py_trunc_div s 2 = s div 2"
  by (cases "s = 0") (simp_all add: py_trunc_div_def)

lemma min_overlap_config_4: "min_overlap_config 4 = (2, 2)"
  by (simp add: min_overlap_config_def min_overlap_loop_def min_overlap_step_def py_trunc_div_def
      sys_maxsize_def upto.simps)


lemma min_overlap_config_props:
  assumes "even s" "0 < s" "s \<le> float_exact_bound"
  shows "case min_overlap_config s of (rows, columns) \<Rightarrow>
           rows * columns = s \<and> 1 \<le> rows \<and> rows \<le> s div 2 \<and>
           (\<forall>r c. 0 < r \<and> r * c = s \<longrightarrow>
              \<bar>columns - rows\<bar> \<le> \<bar>c - r\<bar> \<and> (\<bar>c - r\<bar> = \<bar>columns - rows\<bar> \<longrightarrow> rows \<le> r))"
proof -
  have s2: "2 \<le> s" using assms(1,2) by presburger
  have k1: "1 \<le> s div 2" using s2 by simp
  have bound: "s - 1 < sys_maxsize" using assms(3) by (simp add: float_exact_bound_def sys_maxsize_def)
  obtain m rows columns where st: "min_overlap_loop s (s div 2) = (m, rows, columns)"
    by (cases "min_overlap_loop s (s div 2)")
  have cfg: "min_overlap_config s = (rows, columns)"
    using assms(2) by (simp add: min_overlap_config_def py_trunc_div_2 st)
  have "loop_inv s (s div 2) (m, rows, columns)"
    using loop_inv_all[OF s2 bound k1] st by simp
  then have conj: "1 \<le> rows \<and> rows \<le> s div 2 \<and> s mod rows = 0 \<and> columns = s div rows
      \<and> m = gap s rows \<and> least_gap s (s div 2) m rows"
    unfolding loop_inv_def prod.case .
  have r1: "1 \<le> rows" and r2: "rows \<le> s div 2" and r3: "s mod rows = 0"
    and r4: "columns = s div rows" and r5: "m = gap s rows" and r6: "least_gap s (s div 2) m rows"
    using conj by blast+
  have "rows dvd s" using r3 by (simp only: dvd_eq_mod_eq_0)
  then have prod: "rows * columns = s" unfolding r4 by (rule dvd_mult_div_cancel)
  have mg: "\<bar>columns - rows\<bar> = m" using r4 r5 by (simp add: gap_def)
  have one: "m \<le> s - 1"
  proof -
    have "m \<le> gap s 1" using least_gapD[OF r6, of 1] k1 by simp
    then show ?thesis using s2 by (simp add: gap_def)
  qed
  have best: "m \<le> \<bar>c - r\<bar> \<and> (\<bar>c - r\<bar> = m \<longrightarrow> rows \<le> r)" if "0 < r" "r * c = s" for r c
  proof (cases "r \<le> s div 2")
    case True
    have c: "c = s div r" using that by auto
    have "s mod r = 0" using that by auto
    then show ?thesis using least_gapD[OF r6, of r] that(1) True c by (simp add: gap_def)
  next
    case False
    then have "r = s \<and> c = 1" using big_divisor[OF assms(2) that] by simp
    then have "\<bar>c - r\<bar> = s - 1" using s2 by simp
    moreover have "rows \<le> r" using r2 False by linarith
    ultimately show ?thesis using one by simp
  qed
  show ?thesis unfolding cfg prod.case mg using prod r1 r2 best by blast
qed


text \<open>
  C4.  For an even \<open>subdivision\<close> of at least 2 (and at most \<open>2^53\<close>, where the float
  quotient of the source is exact) the chosen pair satisfies \<open>rows * columns =
  subdivision\<close> with \<open>1 \<le> rows \<le> subdivision div 2\<close>; no factor pair has a strictly
  smaller \<open>|columns - rows|\<close>, and every pair that reaches the minimum has at least as
  many rows.
\<close>

theorem min_overlap_config_factorisation:
  assumes "even s" "0 < s" "s \<le> float_exact_bound"
  shows "case min_overlap_config s of (rows, columns) \<Rightarrow>
           rows * columns = s \<and> 1 \<le> rows \<and> rows \<le> s div 2 \<and>
           (\<forall>r c. 0 < r \<and> r * c = s \<longrightarrow>
              \<bar>columns - rows\<bar> \<le> \<bar>c - r\<bar> \<and> (\<bar>c - r\<bar> = \<bar>columns - rows\<bar> \<longrightarrow> rows \<le> r))"
  using assms by (rule min_overlap_config_props)

theorem min_overlap_config_factorisation_witness:
  "even (4 :: int) \<and> (0 :: int) < 4 \<and> 4 \<le> float_exact_bound \<and> min_overlap_config 4 = (2, 2)
   \<and> (2 :: int) * 2 = 4 \<and> (2 :: int) \<le> 4 div 2"
proof -
  have h: "even (4 :: int)" "(0 :: int) < 4" "4 \<le> float_exact_bound"
    by (simp_all add: float_exact_bound_def)
  show ?thesis
    using h min_overlap_config_factorisation[OF h] by (simp add: min_overlap_config_4)
qed

section \<open>Properties of the grid cropper\<close>

text \<open>
  C3.  One \<open>2 \<times> 2\<close> image cut into four \<open>1 \<times> 1\<close> tiles with threshold 50; the mask
  gives the first tile the ratio 100 and the other three the ratio 0.  Only the first
  tile passes, yet the single emitted tile is the last one of the image (value 4, mask
  0): once \<open>l_i\<close> stands on the last selected position every later tile is written to
  that slot.
\<close>

theorem crop_data_discard_overwrites_last_slot:
  "crop_data
     \<lparr>n_imgs = 1, height = 2, width = 2, channels = 1, imgs = [[[[1], [2]], [[3], [4]]]]\<rparr>
     (1, 1)
     (Some \<lparr>n_imgs = 1, height = 2, width = 2, channels = 1, imgs = [[[[1], [0]], [[0], [0]]]]\<rparr>)
     (0, 0) 50
   = Inr ([[[[4]]]], Some [[[[0]]]], (2, 2))
   \<and> foreground_percentage [[[1 :: rat]]] [1] = Inr 100
   \<and> foreground_percentage [[[0 :: rat]]] [1] = Inr 0"
  by code_simp


text \<open>
  C6.  A \<open>5 \<times> 5\<close> image with \<^verbatim>\<open>crop_shape = (5, 2)\<close>: the layout is \<open>(1, 3)\<close>, the
  resized array gets \<open>1 * 2\<close> rows and \<open>3 * 5\<close> columns, and the assignment of the five
  rows of data into it raises.
\<close>

theorem crop_data_non_square_layout:
  "crop_layout 5 5 (5, 2) (0, 0) = Inr (1, 3)
   \<and> crop_data
        \<lparr>n_imgs = 1, height = 5, width = 5, channels = 1,
         imgs = [replicate 5 (replicate 5 [7])]\<rparr>
        (5, 2) None (0, 0) 0
      = Inl ValueError"
  by code_simp


section \<open>Properties of the flip step\<close>

text \<open>
  C8.  With \<open>vflip\<close> disabled, \<open>hflip\<close> enabled and the draw \<open>0.6\<close>, the third branch
  fires: the image and the mask are reversed along axis 0 as well as along axis 1, and
  the counter of vertical flips is incremented.
\<close>

theorem flip_step_both_without_vflip:
  "flip_step False True (6 / 10)
     \<lparr>trans_image = [[1, 2], [3, 4 :: int]], trans_mask = [[1, 0], [0, 0]],
      transform_string = [], transformed = False, t_counter = [0, 0, 0, 0, 0, 0]\<rparr>
   = \<lparr>trans_image = [[4, 3], [2, 1]], trans_mask = [[0, 0], [0, 1]],
      transform_string = ''_hfvf'', transformed = True, t_counter = [0, 1, 1, 0, 0, 0]\<rparr>"
  by (simp add: flip_step_def flip0_def flip1_def bump_def)


section \<open>Properties of the random crop\<close>

text \<open>
  C9.  In validation mode the result does not depend on the values drawn, and for a
  single-channel image (with \<open>draw_prob_map_points\<close> at its default) it is the window
  of the requested size at origin \<open>(0, 0)\<close> of the image and of the mask.
\<close>

theorem random_crop_validation_deterministic:
  "random_crop img msk sz True pm dr ip rnd1 = random_crop img msk sz True pm dr ip rnd2
   \<and> (shape2 img = 1 \<and> \<not> dr \<longrightarrow>
        random_crop img msk sz True pm dr ip rnd1
          = Inr (py_slice2 0 (fst sz) 0 (snd sz) (elems img),
                 py_slice2 0 (fst sz) 0 (snd sz) msk, None))"
  by (simp add: random_crop_def Let_def)

theorem random_crop_validation_deterministic_witness:
  "shape2 \<lparr>shape0 = 2, shape1 = 2, shape2 = 1, elems = [[[1], [2]], [[3], [4 :: int]]]\<rparr> = 1
   \<and> random_crop \<lparr>shape0 = 2, shape1 = 2, shape2 = 1, elems = [[[1], [2]], [[3], [4 :: int]]]\<rparr>
        [[[0], [1]], [[1], [0 :: int]]] (1, 1) True False False None
        \<lparr>choice_index = 3, randint_x = 1, randint_y = 1\<rparr>
      = random_crop \<lparr>shape0 = 2, shape1 = 2, shape2 = 1, elems = [[[1], [2]], [[3], [4 :: int]]]\<rparr>
        [[[0], [1]], [[1], [0 :: int]]] (1, 1) True False False None
        \<lparr>choice_index = 0, randint_x = 0, randint_y = 0\<rparr>
   \<and> random_crop \<lparr>shape0 = 2, shape1 = 2, shape2 = 1, elems = [[[1], [2]], [[3], [4 :: int]]]\<rparr>
        [[[0], [1]], [[1], [0 :: int]]] (1, 1) True False False None
        \<lparr>choice_index = 3, randint_x = 1, randint_y = 1\<rparr>
      = Inr ([[[1]]], [[[0]]], None)"
proof -
  let ?I = "\<lparr>shape0 = 2, shape1 = 2, shape2 = 1, elems = [[[1], [2]], [[3], [4 :: int]]]\<rparr>"
  let ?M = "[[[0], [1]], [[1], [0 :: int]]]"
  let ?R1 = "\<lparr>choice_index = 3, randint_x = 1, randint_y = 1\<rparr>"
  let ?R2 = "\<lparr>choice_index = 0, randint_x = 0, randint_y = 0\<rparr>"
  note t = random_crop_validation_deterministic [of ?I ?M "(1, 1)" False False None ?R1 ?R2]
  have e: "random_crop ?I ?M (1, 1) True False False None ?R1
         = random_crop ?I ?M (1, 1) True False False None ?R2"
    by (rule t[THEN conjunct1])
  have v: "random_crop ?I ?M (1, 1) True False False None ?R1 = Inr ([[[1]]], [[[0]]], None)"
    using t[THEN conjunct2] by (simp add: py_slice2_def py_slice_def clip_index_def)
  have c: "shape2 ?I = 1" by simp
  show ?thesis using c e v by (intro conjI)
qed


text \<open>
  C10.  An image whose third extent is not 1 fails the assertion in every mode, before
  any origin is computed.
\<close>

theorem random_crop_rejects_multichannel:
  "shape2 img \<noteq> 1 \<Longrightarrow> random_crop img msk sz val pm dr ip rnd = Inl AssertionError"
  by (simp add: random_crop_def)

theorem random_crop_rejects_multichannel_witness:
  "shape2 \<lparr>shape0 = 1, shape1 = 1, shape2 = 3, elems = [[[1, 2, 3 :: int]]]\<rparr> \<noteq> 1
   \<and> random_crop \<lparr>shape0 = 1, shape1 = 1, shape2 = 3, elems = [[[1, 2, 3 :: int]]]\<rparr>
        [[[0 :: int]]] (1, 1) True False False None
        \<lparr>choice_index = 0, randint_x = 0, randint_y = 0\<rparr> = Inl AssertionError"
  using random_crop_rejects_multichannel
    [of "\<lparr>shape0 = 1, shape1 = 1, shape2 = 3, elems = [[[1, 2, 3 :: int]]]\<rparr>"
        "[[[0 :: int]]]" "(1, 1)" True False False None
        "\<lparr>choice_index = 0, randint_x = 0, randint_y = 0\<rparr>"]
  by simp

section \<open>Geometry of one axis of the overlap tiling\<close>










section \<open>Slices and updates of lists\<close>










section \<open>Region updates on two-dimensional tables\<close>








section \<open>Loops and the overlap count\<close>









section \<open>The overlap count matrix\<close>




section \<open>Properties of the overlap merger\<close>




section \<open>Properties of the overlap tiler\<close>

lemma scenario_overlap_tiles:
  "crop_data_with_overlap
     \<lparr>n_imgs = 1, height = 6, width = 6, channels = 1,
      imgs = [[[[0], [1], [2], [3], [4], [5]], [[10], [11], [12], [13], [14], [15]],
               [[20], [21], [22], [23], [24], [25]], [[30], [31], [32], [33], [34], [35]],
               [[40], [41], [42], [43], [44], [45]], [[50], [51], [52], [53], [54], [55]]]]\<rparr>
     \<lparr>n_imgs = 1, height = 6, width = 6, channels = 1,
      imgs = [replicate 6 (replicate 6 [0])]\<rparr> 4 4
   = Inr (\<lparr>n_imgs = 4, height = 4, width = 4, channels = 1,
           imgs = [[[[0], [1], [2], [3]], [[10], [11], [12], [13]],
                    [[20], [21], [22], [23]], [[30], [31], [32], [33]]],
                   [[[2], [3], [4], [5]], [[12], [13], [14], [15]],
                    [[22], [23], [24], [25]], [[32], [33], [34], [35]]],
                   [[[20], [21], [22], [23]], [[30], [31], [32], [33]],
                    [[40], [41], [42], [43]], [[50], [51], [52], [53]]],
                   [[[22], [23], [24], [25]], [[32], [33], [34], [35]],
                    [[42], [43], [44], [45]], [[52], [53], [54], [55]]]]\<rparr>,
          \<lparr>n_imgs = 4, height = 4, width = 4, channels = 1,
           imgs = replicate 4 (replicate 4 (replicate 4 [0]))\<rparr>)"
  by code_simp

text \<open>
  C5.  Inputs that pass every assertion of the tiler and still yield no
  \<open>N * subdivision\<close> tiles: a \<open>4 \<times> 4\<close> image with window 4 and \<open>subdivision = 2\<close> (step
  0 on the column axis, \<^verbatim>\<open>range\<close> raises), a \<open>6 \<times> 6\<close> image with window 4 and
  \<open>subdivision = 16\<close> (remainder 1 is not below step 1, the third window has five
  columns), and a \<open>2 \<times> 2\<close> image with window 1 and \<open>subdivision = 16\<close> (the loops make
  four windows; the other twelve of the sixteen slots stay zero).
\<close>

theorem crop_data_with_overlap_misses_tiles:
  "min_overlap_config 2 = (1, 2)
   \<and> crop_data_with_overlap
        \<lparr>n_imgs = 1, height = 4, width = 4, channels = 1, imgs = [replicate 4 (replicate 4 [1])]\<rparr>
        \<lparr>n_imgs = 1, height = 4, width = 4, channels = 1, imgs = [replicate 4 (replicate 4 [0])]\<rparr>
        4 2 = Inl ValueError
   \<and> min_overlap_config 16 = (4, 4)
   \<and> crop_data_with_overlap
        \<lparr>n_imgs = 1, height = 6, width = 6, channels = 1, imgs = [replicate 6 (replicate 6 [1])]\<rparr>
        \<lparr>n_imgs = 1, height = 6, width = 6, channels = 1, imgs = [replicate 6 (replicate 6 [0])]\<rparr>
        4 16 = Inl ValueError
   \<and> crop_data_with_overlap
        \<lparr>n_imgs = 1, height = 2, width = 2, channels = 1, imgs = [[[[1], [2]], [[3], [4]]]]\<rparr>
        \<lparr>n_imgs = 1, height = 2, width = 2, channels = 1, imgs = [[[[0], [0]], [[0], [0]]]]\<rparr>
        1 16
       = Inr (\<lparr>n_imgs = 16, height = 1, width = 1, channels = 1,
               imgs = [[[[1]]], [[[2]]], [[[3]]], [[[4]]]] @ replicate 12 [[[0]]]\<rparr>,
              \<lparr>n_imgs = 16, height = 1, width = 1, channels = 1,
               imgs = replicate 16 [[[0]]]\<rparr>)"
  by code_simp

section \<open>Windows of well-formed images\<close>







section \<open>Writing the tiles\<close>






section \<open>The loops of the overlap tiler\<close>




section \<open>The loops of the overlap merger\<close>






section \<open>Counting and dividing\<close>








section \<open>Merging one image\<close>


section \<open>Merging all images\<close>


section \<open>Facts for the round trip\<close>





section \<open>The tiler on regular axes\<close>


section \<open>The merger on regular axes\<close>


section \<open>The round trip of tiler and merger\<close>




end
